theory Spec2Isabelle
  imports Complex_Main
begin

section \<open>Strings as the source uses them\<close>

text \<open>
  A JavaScript string is modelled as a \<^typ>\<open>string\<close>. The model covers ASCII text:
  letter case is changed on the letters A-Z and a-z only, white space is the ASCII white
  space, and a digit (the complement of the regular expression class \<^verbatim>\<open>\D\<close>) is one
  of 0-9. Every other character is left as it is.
\<close>

definition isDigit :: "char \<Rightarrow> bool" where
  "isDigit c = (c \<in> set ''0123456789'')"

definition isSpace :: "char \<Rightarrow> bool" where
  "isSpace c = (c \<in> set [CHR '' '', CHR 0x09, CHR 0x0A, CHR 0x0B, CHR 0x0C, CHR 0x0D])"

definition lowerChar :: "char \<Rightarrow> char" where
  "lowerChar c =
     (case map_of (zip ''ABCDEFGHIJKLMNOPQRSTUVWXYZ'' ''abcdefghijklmnopqrstuvwxyz'') c of
        Some d \<Rightarrow> d | None \<Rightarrow> c)"

definition upperChar :: "char \<Rightarrow> char" where
  "upperChar c =
     (case map_of (zip ''abcdefghijklmnopqrstuvwxyz'' ''ABCDEFGHIJKLMNOPQRSTUVWXYZ'') c of
        Some d \<Rightarrow> d | None \<Rightarrow> c)"

definition toLowerCase :: "string \<Rightarrow> string" where
  "toLowerCase s = map lowerChar s"

definition toUpperCase :: "string \<Rightarrow> string" where
  "toUpperCase s = map upperChar s"

text \<open>\<^verbatim>\<open>s.trim()\<close>: white space removed at both ends.\<close>

definition trim :: "string \<Rightarrow> string" where
  "trim s = rev (dropWhile isSpace (rev (dropWhile isSpace s)))"

text \<open>\<^verbatim>\<open>s.startsWith(p)\<close> and \<^verbatim>\<open>s.includes(p)\<close>.\<close>

fun startsWith :: "string \<Rightarrow> string \<Rightarrow> bool" where
  "startsWith s [] = True"
| "startsWith [] (p # ps) = False"
| "startsWith (c # s) (p # ps) = (c = p \<and> startsWith s ps)"

fun includesStr :: "string \<Rightarrow> string \<Rightarrow> bool" where
  "includesStr [] p = (p = [])"
| "includesStr (c # s) p = (startsWith (c # s) p \<or> includesStr s p)"

text \<open>\<^verbatim>\<open>s.replace(/\D/g, '')\<close>: every character that is not a digit is removed.\<close>

definition stripNonDigits :: "string \<Rightarrow> string" where
  "stripNonDigits s = filter isDigit s"

section \<open>Geofencing: the Virginia service area\<close>

definition VA_ZIP_PREFIXES :: "string list" where
  "VA_ZIP_PREFIXES = [''20'', ''22'', ''23'']"

text \<open>\<^verbatim>\<open>VA_COUNTIES\<close>, in the order of its keys.\<close>

definition VA_COUNTIES :: "(string \<times> string list) list" where
  "VA_COUNTIES =
   [(''northernVA'',
       [''Fairfax'', ''Fairfax City'', ''Arlington'', ''Alexandria'', ''Loudoun'',
        ''Prince William'', ''Manassas'', ''Manassas Park'', ''Falls Church'', ''Fauquier'',
        ''Stafford'', ''Spotsylvania'', ''Fredericksburg'']),
    (''richmondMetro'',
       [''Richmond'', ''Henrico'', ''Chesterfield'', ''Hanover'', ''Goochland'', ''Powhatan'',
        ''Colonial Heights'', ''Petersburg'']),
    (''hamptonRoads'',
       [''Virginia Beach'', ''Norfolk'', ''Newport News'', ''Hampton'', ''Chesapeake'',
        ''Portsmouth'', ''Suffolk'', ''Williamsburg'', ''James City'', ''York'']),
    (''centralVA'',
       [''Albemarle'', ''Charlottesville'', ''Lynchburg'', ''Bedford'', ''Roanoke'', ''Salem'',
        ''Montgomery'', ''Blacksburg''])]"

text \<open>\<^verbatim>\<open>ZIP_TO_COUNTY\<close>: the sample table from ZIP code to county, in source order.\<close>

definition ZIP_TO_COUNTY :: "(string \<times> string) list" where
  "ZIP_TO_COUNTY = [
    (''22030'', ''Fairfax''), (''22031'', ''Fairfax''), (''22032'', ''Fairfax''),
    (''22033'', ''Fairfax''), (''22034'', ''Fairfax''), (''22035'', ''Fairfax''),
    (''22039'', ''Fairfax''), (''22041'', ''Fairfax''), (''22042'', ''Fairfax''),
    (''22043'', ''Fairfax''), (''22044'', ''Fairfax''), (''22046'', ''Falls Church''),
    (''22060'', ''Fairfax''), (''22079'', ''Fairfax''), (''22101'', ''Fairfax''),
    (''22102'', ''Fairfax''), (''22124'', ''Fairfax''), (''22150'', ''Fairfax''),
    (''22151'', ''Fairfax''), (''22152'', ''Fairfax''), (''22153'', ''Fairfax''),
    (''22180'', ''Fairfax''), (''22181'', ''Fairfax''), (''22182'', ''Fairfax''),
    (''22201'', ''Arlington''), (''22202'', ''Arlington''), (''22203'', ''Arlington''),
    (''22204'', ''Arlington''), (''22205'', ''Arlington''), (''22206'', ''Arlington''),
    (''22207'', ''Arlington''), (''22209'', ''Arlington''), (''22211'', ''Arlington''),
    (''22213'', ''Arlington''), (''22301'', ''Alexandria''), (''22302'', ''Alexandria''),
    (''22303'', ''Alexandria''), (''22304'', ''Alexandria''), (''22305'', ''Alexandria''),
    (''22306'', ''Fairfax''), (''22307'', ''Fairfax''), (''22308'', ''Fairfax''),
    (''22309'', ''Fairfax''), (''22310'', ''Fairfax''), (''22311'', ''Alexandria''),
    (''22312'', ''Fairfax''), (''22314'', ''Alexandria''), (''22315'', ''Fairfax''),
    (''20105'', ''Loudoun''), (''20117'', ''Loudoun''), (''20120'', ''Loudoun''),
    (''20121'', ''Loudoun''), (''20129'', ''Loudoun''), (''20130'', ''Loudoun''),
    (''20132'', ''Loudoun''), (''20135'', ''Loudoun''), (''20141'', ''Loudoun''),
    (''20147'', ''Loudoun''), (''20148'', ''Loudoun''), (''20152'', ''Loudoun''),
    (''20158'', ''Loudoun''), (''20164'', ''Loudoun''), (''20165'', ''Loudoun''),
    (''20166'', ''Loudoun''), (''20175'', ''Loudoun''), (''20176'', ''Loudoun''),
    (''22025'', ''Prince William''), (''22026'', ''Prince William''), (''22110'', ''Prince William''),
    (''22111'', ''Prince William''), (''22112'', ''Prince William''), (''22172'', ''Prince William''),
    (''22191'', ''Prince William''), (''22192'', ''Prince William''), (''22193'', ''Prince William''),
    (''22194'', ''Prince William''), (''20109'', ''Prince William''), (''20110'', ''Manassas''),
    (''20111'', ''Manassas''), (''20112'', ''Prince William''), (''20155'', ''Prince William''),
    (''20169'', ''Prince William''), (''20181'', ''Prince William''), (''23173'', ''Richmond''),
    (''23219'', ''Richmond''), (''23220'', ''Richmond''), (''23221'', ''Richmond''),
    (''23222'', ''Richmond''), (''23223'', ''Richmond''), (''23224'', ''Richmond''),
    (''23225'', ''Richmond''), (''23226'', ''Richmond''), (''23227'', ''Richmond''),
    (''23228'', ''Henrico''), (''23229'', ''Henrico''), (''23230'', ''Richmond''),
    (''23231'', ''Henrico''), (''23233'', ''Henrico''), (''23234'', ''Chesterfield''),
    (''23235'', ''Chesterfield''), (''23236'', ''Chesterfield''), (''23237'', ''Chesterfield''),
    (''23238'', ''Henrico''), (''23294'', ''Henrico'')]"

record ValidationResult =
  isValid :: bool
  isVirginia :: bool
  county :: "string option"
  region :: "string option"
  message :: string

text \<open>\<^verbatim>\<open>zipCode.replace(/\D/g, '').substring(0, 5)\<close>, the first line of each entry point.\<close>

definition cleanZipOf :: "string \<Rightarrow> string" where
  "cleanZipOf zipCode = take 5 (stripNonDigits zipCode)"

definition isVirginiaZipCode :: "string \<Rightarrow> bool" where
  "isVirginiaZipCode zipCode =
     (let cleanZip = cleanZipOf zipCode in
      if length cleanZip \<noteq> 5 then False
      else (let prefix = take 2 cleanZip in prefix \<in> set VA_ZIP_PREFIXES))"

text \<open>
  \<^verbatim>\<open>ZIP_TO_COUNTY[cleanZip] || null\<close>. The keys of the table are pairwise different and
  its values are non-empty, so the lookup is the one of the association list.
\<close>

definition getCountyFromZip :: "string \<Rightarrow> string option" where
  "getCountyFromZip zipCode = map_of ZIP_TO_COUNTY (cleanZipOf zipCode)"

fun regionOf :: "(string \<times> string list) list \<Rightarrow> string \<Rightarrow> string option" where
  "regionOf [] c = None"
| "regionOf ((r, counties) # rest) c =
     (if list_ex (\<lambda>k. toLowerCase k = toLowerCase c) counties then Some r
      else regionOf rest c)"

definition getRegionFromCounty :: "string \<Rightarrow> string option" where
  "getRegionFromCounty c = regionOf VA_COUNTIES c"

text \<open>
  The optional parameter \<^verbatim>\<open>state\<close> is \<open>None\<close> when the caller leaves it out. The test
  \<^verbatim>\<open>state && ...\<close> is false for the empty string as well.
\<close>

definition stateIsForeign :: "string option \<Rightarrow> bool" where
  "stateIsForeign state =
     (case state of
        None \<Rightarrow> False
      | Some s \<Rightarrow> s \<noteq> [] \<and> toUpperCase s \<noteq> ''VA'' \<and> toLowerCase s \<noteq> ''virginia'')"

definition validateLeadLocation :: "string \<Rightarrow> string option \<Rightarrow> ValidationResult" where
  "validateLeadLocation zipCode state =
     (let cleanZip = cleanZipOf zipCode in
      if stateIsForeign state then
        \<lparr>isValid = False, isVirginia = False, county = None, region = None,
         message = ''Lead is outside Virginia service area ('' @ (case state of Some s \<Rightarrow> s | None \<Rightarrow> []) @ '')''\<rparr>
      else if length cleanZip \<noteq> 5 then
        \<lparr>isValid = False, isVirginia = False, county = None, region = None,
         message = ''Invalid ZIP code format''\<rparr>
      else if \<not> isVirginiaZipCode cleanZip then
        \<lparr>isValid = False, isVirginia = False, county = None, region = None,
         message = ''ZIP code is outside Virginia''\<rparr>
      else
        (let cty = getCountyFromZip cleanZip;
             reg = (case cty of None \<Rightarrow> None | Some c \<Rightarrow> getRegionFromCounty c)
         in \<lparr>isValid = True, isVirginia = True, county = cty, region = reg,
             message = (case cty of
                          Some c \<Rightarrow> ''Valid Virginia location: '' @ c
                        | None \<Rightarrow> ''Valid Virginia ZIP code'')\<rparr>))"

definition shouldAutoArchive :: "string \<Rightarrow> string option \<Rightarrow> bool" where
  "shouldAutoArchive zipCode state = (\<not> isVirginia (validateLeadLocation zipCode state))"

section \<open>Service categorization\<close>

datatype ServiceTier = EPIC | MODERNIZE | EXTERIOR | SERVICE

text \<open>The numeric value of the enumeration: \<^verbatim>\<open>EPIC = 1\<close> to \<^verbatim>\<open>SERVICE = 4\<close>.\<close>

fun tierNumber :: "ServiceTier \<Rightarrow> int" where
  "tierNumber EPIC = 1"
| "tierNumber MODERNIZE = 2"
| "tierNumber EXTERIOR = 3"
| "tierNumber SERVICE = 4"

text \<open>
  A JavaScript number is modelled as a real number: the model computes exactly and has
  no \<^verbatim>\<open>NaN\<close> and no infinity. The field \<^verbatim>\<open>name\<close> of a tier's configuration is
  \<open>tierName\<close> here, \<open>name\<close> being a field of the duplicate check's input.
\<close>

record TierConfig =
  tierName :: string
  description :: string
  color :: string
  minValue :: real
  maxValue :: real
  baseScore :: real

fun TIER_CONFIG :: "ServiceTier \<Rightarrow> TierConfig" where
  "TIER_CONFIG EPIC =
     \<lparr>tierName = ''Epic'', description = ''Whale leads - High value, long-term projects'',
      color = ''#F4B400'', minValue = 100000, maxValue = 500000, baseScore = 80\<rparr>"
| "TIER_CONFIG MODERNIZE =
     \<lparr>tierName = ''Modernize'', description = ''Core revenue - Bread and butter projects'',
      color = ''#006070'', minValue = 30000, maxValue = 150000, baseScore = 60\<rparr>"
| "TIER_CONFIG EXTERIOR =
     \<lparr>tierName = ''Exterior'', description = ''Specialty - Entry point projects'',
      color = ''#7C3AED'', minValue = 10000, maxValue = 50000, baseScore = 40\<rparr>"
| "TIER_CONFIG SERVICE =
     \<lparr>tierName = ''Service'', description = ''High volume - Quick turnaround'',
      color = ''#10B981'', minValue = 2000, maxValue = 30000, baseScore = 20\<rparr>"

text \<open>\<^verbatim>\<open>SERVICE_TO_TIER\<close>, in the order of its keys (the order \<^verbatim>\<open>Object.keys\<close> gives).\<close>

definition SERVICE_TO_TIER :: "(string \<times> ServiceTier) list" where
  "SERVICE_TO_TIER =
   [(''New Construction'', EPIC), (''Full Renovation'', EPIC), (''Home Addition'', EPIC),
    (''Kitchen Remodel'', MODERNIZE), (''Bathroom Remodel'', MODERNIZE),
    (''Basement Remodel'', MODERNIZE), (''Condo Renovation'', MODERNIZE),
    (''Roofing'', EXTERIOR), (''Deck'', EXTERIOR), (''Concrete'', EXTERIOR),
    (''Siding'', EXTERIOR), (''Fence'', EXTERIOR), (''She-Shed'', EXTERIOR),
    (''Painting'', SERVICE), (''Drywall'', SERVICE), (''Flooring'', SERVICE),
    (''Windows/Doors'', SERVICE)]"

text \<open>\<^verbatim>\<open>SERVICE_TO_TIER[serviceType] ?? ServiceTier.SERVICE\<close>.\<close>

definition getServiceTier :: "string \<Rightarrow> ServiceTier" where
  "getServiceTier serviceType =
     (case map_of SERVICE_TO_TIER serviceType of Some t \<Rightarrow> t | None \<Rightarrow> SERVICE)"

text \<open>The keyword table local to \<^verbatim>\<open>findClosestService\<close>, in source order.\<close>

definition keywordMap :: "(string \<times> string) list" where
  "keywordMap =
   [(''kitchen'', ''Kitchen Remodel''), (''bath'', ''Bathroom Remodel''),
    (''bathroom'', ''Bathroom Remodel''), (''basement'', ''Basement Remodel''),
    (''condo'', ''Condo Renovation''), (''roof'', ''Roofing''), (''deck'', ''Deck''),
    (''concrete'', ''Concrete''), (''siding'', ''Siding''), (''fence'', ''Fence''),
    (''shed'', ''She-Shed''), (''paint'', ''Painting''), (''drywall'', ''Drywall''),
    (''floor'', ''Flooring''), (''window'', ''Windows/Doors''), (''door'', ''Windows/Doors''),
    (''addition'', ''Home Addition''), (''renovation'', ''Full Renovation''),
    (''remodel'', ''Full Renovation''), (''new home'', ''New Construction''),
    (''build'', ''New Construction'')]"

text \<open>
  The three loops of \<^verbatim>\<open>findClosestService\<close>, each returning at the first entry that
  passes its test: the direct match, the partial match, the keyword match.
\<close>

definition directMatch :: "string \<Rightarrow> string option" where
  "directMatch normalized =
     find (\<lambda>service. toLowerCase service = normalized) (map fst SERVICE_TO_TIER)"

definition partialMatch :: "string \<Rightarrow> string option" where
  "partialMatch normalized =
     find (\<lambda>service. includesStr (toLowerCase service) normalized
                     \<or> includesStr normalized (toLowerCase service))
       (map fst SERVICE_TO_TIER)"

definition keywordMatch :: "string \<Rightarrow> string option" where
  "keywordMatch normalized =
     map_option snd (find (\<lambda>(keyword, service). includesStr normalized keyword) keywordMap)"

definition findClosestService :: "string \<Rightarrow> string option" where
  "findClosestService input =
     (let normalized = trim (toLowerCase input) in
      case directMatch normalized of
        Some service \<Rightarrow> Some service
      | None \<Rightarrow>
          (case partialMatch normalized of
             Some service \<Rightarrow> Some service
           | None \<Rightarrow> keywordMatch normalized))"

section \<open>Tagging\<close>

datatype LeadTag = Whale | QuickTurn | Luxury | Commercial | MultiUnit

definition LUXURY_AREAS :: "string list" where
  "LUXURY_AREAS =
   [''McLean'', ''Great Falls'', ''Vienna'', ''Oakton'', ''Clifton'', ''Potomac Falls'',
    ''Aldie'', ''Leesburg'', ''Purcellville'', ''Old Town Alexandria'', ''Belle Haven'',
    ''Rosemont'', ''Charlottesville'', ''Virginia Beach'', ''Williamsburg'']"

definition LUXURY_COUNTIES :: "string list" where
  "LUXURY_COUNTIES = [''Fairfax'', ''Loudoun'', ''Arlington'', ''Alexandria'', ''Falls Church'']"

definition WHALE_SERVICES :: "string list" where
  "WHALE_SERVICES = [''New Construction'', ''Full Renovation'', ''Home Addition'']"

definition QUICK_TURN_SERVICES :: "string list" where
  "QUICK_TURN_SERVICES = [''Painting'', ''Drywall'', ''Flooring'', ''Windows/Doors'']"

text \<open>
  \<^verbatim>\<open>TagInput\<close>. An optional or nullable field is an \<open>option\<close>; the fields \<^verbatim>\<open>county\<close> and
  \<^verbatim>\<open>estimatedValue\<close> carry a suffix, the plain names being fields of other records.
\<close>

record TagInput =
  serviceType :: string
  location :: string
  county_tag :: "string option"
  leadType :: "string option"
  estimatedValue_tag :: "real option"

text \<open>The truth value JavaScript gives a number that may be absent: a number other than 0.\<close>

definition truthyNum :: "real option \<Rightarrow> bool" where
  "truthyNum v = (case v of None \<Rightarrow> False | Some x \<Rightarrow> x \<noteq> 0)"

text \<open>The truth value of a string that may be absent: a non-empty string.\<close>

definition truthyStr :: "string option \<Rightarrow> bool" where
  "truthyStr v = (case v of None \<Rightarrow> False | Some x \<Rightarrow> x \<noteq> [])"

definition isLuxuryArea :: "string \<Rightarrow> bool" where
  "isLuxuryArea loc =
     list_ex (\<lambda>area. includesStr (toLowerCase loc) (toLowerCase area)) LUXURY_AREAS"

definition isLuxuryCounty :: "string option \<Rightarrow> bool" where
  "isLuxuryCounty cty =
     (truthyStr cty \<and> list_ex (\<lambda>c. toLowerCase c = toLowerCase (the cty)) LUXURY_COUNTIES)"

text \<open>\<^verbatim>\<open>assignLeadTags\<close>: the array \<^verbatim>\<open>tags\<close> after each of its statements, in order.\<close>

definition assignLeadTags :: "TagInput \<Rightarrow> LeadTag list" where
  "assignLeadTags input =
     (let tags0 = [];
          tags1 = (if serviceType input \<in> set WHALE_SERVICES then tags0 @ [Whale] else tags0);
          tags2 = (if truthyNum (estimatedValue_tag input)
                      \<and> the (estimatedValue_tag input) \<ge> 100000
                   then (if Whale \<notin> set tags1 then tags1 @ [Whale] else tags1)
                   else tags1);
          tags3 = (if serviceType input \<in> set QUICK_TURN_SERVICES
                   then tags2 @ [QuickTurn] else tags2);
          tags4 = (if isLuxuryArea (location input) \<or> isLuxuryCounty (county_tag input)
                   then tags3 @ [Luxury] else tags3);
          tags5 = (if leadType input = Some ''Commercial'' \<or> leadType input = Some ''HOA Manager''
                   then tags4 @ [Commercial] else tags4);
          tags6 = (if leadType input = Some ''Property Manager'' \<or> leadType input = Some ''Investor''
                   then tags5 @ [MultiUnit] else tags5)
      in tags6)"

definition calculateTagBonus :: "LeadTag list \<Rightarrow> real" where
  "calculateTagBonus tags =
     (let bonus0 = 0;
          bonus1 = (if Whale \<in> set tags then bonus0 + 15 else bonus0);
          bonus2 = (if Luxury \<in> set tags then bonus1 + 10 else bonus1);
          bonus3 = (if MultiUnit \<in> set tags then bonus2 + 8 else bonus2);
          bonus4 = (if Commercial \<in> set tags then bonus3 + 5 else bonus3);
          bonus5 = (if QuickTurn \<in> set tags then bonus4 + 3 else bonus4)
      in bonus5)"

section \<open>Lead scoring\<close>

datatype ProjectScope = small | medium | large | enterprise

fun SCOPE_SCORES :: "ProjectScope \<Rightarrow> real" where
  "SCOPE_SCORES small = 20"
| "SCOPE_SCORES medium = 50"
| "SCOPE_SCORES large = 75"
| "SCOPE_SCORES enterprise = 100"

definition NOVA_COUNTIES :: "string list" where
  "NOVA_COUNTIES =
   [''Fairfax'', ''Arlington'', ''Alexandria'', ''Loudoun'', ''Prince William'', ''Falls Church'']"

text \<open>
  \<^verbatim>\<open>LeadScoreInput\<close>. The fields \<^verbatim>\<open>hasEmail\<close>, \<^verbatim>\<open>hasPhone\<close> and \<^verbatim>\<open>tags\<close> have defaults
  (\<^verbatim>\<open>false\<close>, \<^verbatim>\<open>false\<close>, the empty array) in the function's destructuring, so an absent
  field is its default here.
\<close>

record LeadScoreInput =
  serviceTier :: ServiceTier
  projectScope :: "ProjectScope option"
  estimatedValue :: "real option"
  county_score :: "string option"
  hasEmail :: bool
  hasPhone :: bool
  tags :: "LeadTag list"
  confidenceScore :: "real option"

text \<open>\<^verbatim>\<open>Math.round\<close>: the nearest integer, a half rounded up.\<close>

definition mathRound :: "real \<Rightarrow> int" where
  "mathRound x = \<lfloor>x + 1 / 2\<rfloor>"

text \<open>Steps 2 to 5 of \<^verbatim>\<open>calculateLeadScore\<close>, one definition for each.\<close>

definition scopeScoreOf :: "ProjectScope option \<Rightarrow> real" where
  "scopeScoreOf ps = (case ps of None \<Rightarrow> 50 | Some p \<Rightarrow> SCOPE_SCORES p)"

definition valueScoreOf :: "TierConfig \<Rightarrow> real option \<Rightarrow> real" where
  "valueScoreOf tierConfig ev =
     (if truthyNum ev \<and> the ev > 0 then
        (if the ev \<ge> maxValue tierConfig then 100
         else if the ev \<le> minValue tierConfig then 30
         else 30 + (70 * (the ev - minValue tierConfig)
                      / (maxValue tierConfig - minValue tierConfig)))
      else 50)"

definition locationScoreOf :: "string option \<Rightarrow> real" where
  "locationScoreOf cty =
     (if truthyStr cty then
        (let isNoVA = list_ex (\<lambda>c. toLowerCase c = toLowerCase (the cty)) NOVA_COUNTIES
         in if isNoVA then 100 else 70)
      else 70)"

definition engagementScoreOf :: "bool \<Rightarrow> bool \<Rightarrow> real" where
  "engagementScoreOf e p = (if e then 50 else 0) + (if p then 50 else 0)"

text \<open>The weighted total, then the tag bonus and the confidence bonus, before rounding.\<close>

definition weightedScoreOf :: "LeadScoreInput \<Rightarrow> real" where
  "weightedScoreOf input =
     (let tierConfig = TIER_CONFIG (serviceTier input);
          tierScore = baseScore tierConfig;
          scopeScore = scopeScoreOf (projectScope input);
          valueScore = valueScoreOf tierConfig (estimatedValue input);
          locationScore = locationScoreOf (county_score input);
          engagementScore = engagementScoreOf (hasEmail input) (hasPhone input);
          weighted = tierScore * (40 / 100) + scopeScore * (25 / 100) + valueScore * (20 / 100)
                     + locationScore * (10 / 100) + engagementScore * (5 / 100);
          withTags = (if length (tags input) > 0
                      then weighted + calculateTagBonus (tags input) else weighted);
          withConfidence = (if truthyNum (confidenceScore input) \<and> the (confidenceScore input) > 0
                            then withTags + (the (confidenceScore input) / 100) * 5
                            else withTags)
      in withConfidence)"

definition calculateLeadScore :: "LeadScoreInput \<Rightarrow> int" where
  "calculateLeadScore input = min 100 (max 0 (mathRound (weightedScoreOf input)))"

section \<open>Duplicate detection\<close>

record DuplicateCheckInput =
  name :: string
  email :: "string option"
  phone :: "string option"
  location_in :: string
  address :: "string option"

datatype MatchType = Email | Phone | Address | NameLocation

record DuplicateCheckResult =
  isDuplicate :: bool
  matchedLeadId :: "string option"
  matchType :: "MatchType option"

text \<open>
  The columns of a row of the table \<^verbatim>\<open>leads\<close> that the two functions read. In the
  database schema \<^verbatim>\<open>email\<close> and \<^verbatim>\<open>phone\<close> may be null, the other three may not.
\<close>

record LeadRow =
  row_id :: string
  row_name :: string
  row_email :: "string option"
  row_phone :: "string option"
  row_location :: string

text \<open>\<^verbatim>\<open>if (!phone) return null\<close>: null and the empty string both give null.\<close>

definition normalizePhone :: "string option \<Rightarrow> string option" where
  "normalizePhone p = (if \<not> truthyStr p then None else Some (stripNonDigits (the p)))"

definition normalizeEmail :: "string option \<Rightarrow> string option" where
  "normalizeEmail e = (if \<not> truthyStr e then None else Some (trim (toLowerCase (the e))))"

text \<open>\<^verbatim>\<open>s.replace(/\s+/g, ' ')\<close>: each maximal run of white space becomes one space.\<close>

function collapseSpaces :: "string \<Rightarrow> string" where
  "collapseSpaces [] = []"
| "collapseSpaces (c # s) =
     (if isSpace c then CHR '' '' # collapseSpaces (dropWhile isSpace s)
      else c # collapseSpaces s)"
  by pat_completeness auto
termination
  by (relation "measure length") (auto simp: length_dropWhile_le less_Suc_eq_le)

definition normalizeName :: "string \<Rightarrow> string" where
  "normalizeName n = collapseSpaces (trim (toLowerCase n))"

text \<open>
  The store is the table \<^verbatim>\<open>leads\<close> behind the Supabase client, modelled as the list of
  its rows; every query succeeds. The client's operations that the source calls:
  \<^item> \<^verbatim>\<open>.ilike(column, pattern)\<close> keeps the rows whose column is not null and matches the
    pattern without regard to case, where \<^verbatim>\<open>%\<close> stands for any run of characters, \<^verbatim>\<open>_\<close>
    for any one character, and a backslash makes the next character literal;
  \<^item> \<^verbatim>\<open>.not(column, 'is', null)\<close> keeps the rows whose column is not null;
  \<^item> \<^verbatim>\<open>.maybeSingle()\<close> gives the row when exactly one row is left, and null when none
    is left; with more than one row it reports an error and its data is null.
\<close>

fun likeMatch :: "string \<Rightarrow> string \<Rightarrow> bool" where
  "likeMatch [] t = (t = [])"
| "likeMatch (p # ps) t =
     (if p = CHR ''%'' then
        (likeMatch ps t \<or> (case t of [] \<Rightarrow> False | c # t' \<Rightarrow> likeMatch (p # ps) t'))
      else if p = CHR ''_'' then
        (case t of [] \<Rightarrow> False | c # t' \<Rightarrow> likeMatch ps t')
      else if p = CHR 0x5C then
        (case ps of
           [] \<Rightarrow> False
         | q # qs \<Rightarrow> (case t of [] \<Rightarrow> False | c # t' \<Rightarrow> c = q \<and> likeMatch qs t'))
      else (case t of [] \<Rightarrow> False | c # t' \<Rightarrow> c = p \<and> likeMatch ps t'))"

definition ilike :: "string option \<Rightarrow> string \<Rightarrow> bool" where
  "ilike col pat =
     (case col of None \<Rightarrow> False | Some v \<Rightarrow> likeMatch (toLowerCase pat) (toLowerCase v))"

definition maybeSingle :: "'a list \<Rightarrow> 'a option" where
  "maybeSingle rows = (case rows of [r] \<Rightarrow> Some r | _ \<Rightarrow> None)"

definition duplicateOf :: "LeadRow \<Rightarrow> MatchType \<Rightarrow> DuplicateCheckResult" where
  "duplicateOf r t = \<lparr>isDuplicate = True, matchedLeadId = Some (row_id r), matchType = Some t\<rparr>"

definition noDuplicate :: DuplicateCheckResult where
  "noDuplicate = \<lparr>isDuplicate = False, matchedLeadId = None, matchType = None\<rparr>"

text \<open>The three queries of \<^verbatim>\<open>findDuplicateLead\<close>, each with the test that guards it.\<close>

definition emailQuery :: "LeadRow list \<Rightarrow> string option \<Rightarrow> LeadRow option" where
  "emailQuery store normalizedEmail =
     (if truthyStr normalizedEmail
      then maybeSingle (filter (\<lambda>r. ilike (row_email r) (the normalizedEmail)) store)
      else None)"

definition phoneQuery :: "LeadRow list \<Rightarrow> string option \<Rightarrow> LeadRow option" where
  "phoneQuery store normalizedPhone =
     (if truthyStr normalizedPhone \<and> length (the normalizedPhone) \<ge> 10
      then (let phoneMatches = filter (\<lambda>r. row_phone r \<noteq> None) store
            in find (\<lambda>row. normalizePhone (row_phone row) = normalizedPhone) phoneMatches)
      else None)"

definition nameLocationQuery :: "LeadRow list \<Rightarrow> string \<Rightarrow> string \<Rightarrow> LeadRow option" where
  "nameLocationQuery store normalizedName normalizedLocation =
     maybeSingle (filter (\<lambda>r. ilike (Some (row_name r)) (''%'' @ normalizedName @ ''%'')
                           \<and> ilike (Some (row_location r)) (''%'' @ normalizedLocation @ ''%''))
                    store)"

definition findDuplicateLead :: "LeadRow list \<Rightarrow> DuplicateCheckInput \<Rightarrow> DuplicateCheckResult" where
  "findDuplicateLead store lead =
     (let normalizedEmail = normalizeEmail (email lead);
          normalizedPhone = normalizePhone (phone lead);
          normalizedName = normalizeName (name lead);
          normalizedLocation = trim (toLowerCase (location_in lead))
      in case emailQuery store normalizedEmail of
           Some emailMatch \<Rightarrow> duplicateOf emailMatch Email
         | None \<Rightarrow>
             (case phoneQuery store normalizedPhone of
                Some match \<Rightarrow> duplicateOf match Phone
              | None \<Rightarrow>
                  (case nameLocationQuery store normalizedName normalizedLocation of
                     Some nameLocationMatch \<Rightarrow> duplicateOf nameLocationMatch NameLocation
                   | None \<Rightarrow> noDuplicate)))"

definition checkDuplicateLead :: "LeadRow list \<Rightarrow> DuplicateCheckInput \<Rightarrow> bool" where
  "checkDuplicateLead store lead = isDuplicate (findDuplicateLead store lead)"

text \<open>
  The body of the loop of \<^verbatim>\<open>batchCheckDuplicates\<close> for one lead: the first existing row
  that passes any of the three tests, then the match type read off that row.
\<close>

definition batchCheckOne :: "LeadRow list \<Rightarrow> DuplicateCheckInput \<Rightarrow> DuplicateCheckResult" where
  "batchCheckOne existingLeads lead =
     (let normalizedEmail = normalizeEmail (email lead);
          normalizedPhone = normalizePhone (phone lead);
          normalizedName = normalizeName (name lead);
          normalizedLocation = trim (toLowerCase (location_in lead));
          match = find (\<lambda>existing.
                    (truthyStr normalizedEmail
                       \<and> normalizeEmail (row_email existing) = normalizedEmail)
                    \<or> (truthyStr normalizedPhone
                       \<and> normalizePhone (row_phone existing) = normalizedPhone)
                    \<or> (includesStr (normalizeName (row_name existing)) normalizedName
                       \<and> includesStr (toLowerCase (row_location existing)) normalizedLocation))
                  existingLeads
      in case match of
           Some m \<Rightarrow>
             (let matchType =
                    (if truthyStr normalizedEmail \<and> normalizeEmail (row_email m) = normalizedEmail
                     then Email
                     else if truthyStr normalizedPhone
                             \<and> normalizePhone (row_phone m) = normalizedPhone
                     then Phone
                     else NameLocation)
              in duplicateOf m matchType)
         | None \<Rightarrow> noDuplicate)"

text \<open>
  \<^verbatim>\<open>batchCheckDuplicates\<close>: the map from each index of \<^verbatim>\<open>leads\<close> to its result. The arrays
  \<^verbatim>\<open>emails\<close> and \<^verbatim>\<open>phones\<close> that the source collects first are not read again.
\<close>

definition batchCheckDuplicates ::
  "LeadRow list \<Rightarrow> DuplicateCheckInput list \<Rightarrow> (nat \<rightharpoonup> DuplicateCheckResult)" where
  "batchCheckDuplicates store leads =
     map_of (zip [0 ..< length leads] (map (batchCheckOne store) leads))"

section \<open>Properties of the geofence\<close>

lemma cleanZipOf_digits:
  "length z = 5 \<Longrightarrow> list_all isDigit z \<Longrightarrow> cleanZipOf (z @ s) = z"
  by (simp add: cleanZipOf_def stripNonDigits_def list_all_iff)

lemma cleanZipOf_self: "length z = 5 \<Longrightarrow> list_all isDigit z \<Longrightarrow> cleanZipOf z = z"
  using cleanZipOf_digits [of z "[]"] by simp

lemma cleanZipOf_idem: "cleanZipOf (cleanZipOf z) = cleanZipOf z"
proof -
  have "filter isDigit (take 5 (filter isDigit z)) = take 5 (filter isDigit z)"
    by (rule filter_True) (auto dest: in_set_takeD)
  then show ?thesis by (simp add: cleanZipOf_def stripNonDigits_def)
qed

text \<open>The keys of the ZIP table are pairwise different, so a JavaScript object holds
  exactly these entries; each key is five digits and starts with a Virginia prefix.\<close>

lemma ZIP_TO_COUNTY_distinct: "distinct (map fst ZIP_TO_COUNTY)"
  unfolding ZIP_TO_COUNTY_def by simp

lemma ZIP_TO_COUNTY_keys:
  "list_all (\<lambda>(z, c). length z = 5 \<and> list_all isDigit z \<and> take 2 z \<in> set VA_ZIP_PREFIXES)
     ZIP_TO_COUNTY"
  unfolding ZIP_TO_COUNTY_def VA_ZIP_PREFIXES_def isDigit_def by simp

lemma validate_wellformed_zip:
  assumes "length z = 5" and "list_all isDigit z"
  shows "validateLeadLocation z None =
     (if take 2 z \<in> set VA_ZIP_PREFIXES then
        \<lparr>isValid = True, isVirginia = True, county = map_of ZIP_TO_COUNTY z,
         region = (case map_of ZIP_TO_COUNTY z of None \<Rightarrow> None | Some c \<Rightarrow> getRegionFromCounty c),
         message = (case map_of ZIP_TO_COUNTY z of
                          Some c \<Rightarrow> ''Valid Virginia location: '' @ c
                        | None \<Rightarrow> ''Valid Virginia ZIP code'')\<rparr>
      else \<lparr>isValid = False, isVirginia = False, county = None, region = None,
         message = ''ZIP code is outside Virginia''\<rparr>)"
  using assms
  by (simp add: validateLeadLocation_def stateIsForeign_def cleanZipOf_self isVirginiaZipCode_def
      getCountyFromZip_def Let_def)

lemma validate_20814_none:
  "validateLeadLocation ''20814'' None =
     \<lparr>isValid = True, isVirginia = True, county = None, region = None,
      message = ''Valid Virginia ZIP code''\<rparr>"
  by (simp add: validateLeadLocation_def stateIsForeign_def cleanZipOf_def stripNonDigits_def
      isDigit_def isVirginiaZipCode_def VA_ZIP_PREFIXES_def getCountyFromZip_def
      ZIP_TO_COUNTY_def Let_def)

text \<open>
  C3, as the claim states it: \<^verbatim>\<open>validateLeadLocation("20814")\<close> without a state is not
  serviceable and \<^verbatim>\<open>shouldAutoArchive("20814")\<close> is true. The code does the opposite:
  the prefix \<^verbatim>\<open>20\<close> is one of \<^verbatim>\<open>VA_ZIP_PREFIXES\<close>, so the ZIP passes the geofence.
\<close>

theorem zip_20814_no_state_counterexample:
  "\<not> (\<not> isVirginia (validateLeadLocation ''20814'' None) \<and> shouldAutoArchive ''20814'' None)"
  by (simp add: validate_20814_none)

text \<open>
  C3, amended: with no state argument the ZIP \<^verbatim>\<open>20814\<close> is valid and serviceable (its
  prefix \<^verbatim>\<open>20\<close> is in the serviceable prefix set), its county is null and
  \<^verbatim>\<open>shouldAutoArchive\<close> is false; with the state \<^verbatim>\<open>MD\<close> the result is not serviceable
  and \<^verbatim>\<open>shouldAutoArchive\<close> is true.
\<close>

theorem zip_20814_amended:
  "isVirginia (validateLeadLocation ''20814'' None)
   \<and> isValid (validateLeadLocation ''20814'' None)
   \<and> county (validateLeadLocation ''20814'' None) = None
   \<and> shouldAutoArchive ''20814'' None = False
   \<and> isVirginia (validateLeadLocation ''20814'' (Some ''MD'')) = False
   \<and> shouldAutoArchive ''20814'' (Some ''MD'') = True"
  by (simp add: shouldAutoArchive_def validate_20814_none)
     (simp add: validateLeadLocation_def stateIsForeign_def toUpperCase_def toLowerCase_def
        upperChar_def lowerChar_def Let_def)

text \<open>
  C5: every ZIP code that is a key of \<^verbatim>\<open>ZIP_TO_COUNTY\<close> validates (without a state) as
  serviceable with the county of the table; every five-digit ZIP code whose two-digit
  prefix is not a Virginia prefix validates as not serviceable with county null.
\<close>

theorem zip_round_trip:
  "(\<forall>(z, c) \<in> set ZIP_TO_COUNTY.
       county (validateLeadLocation z None) = Some c \<and> isVirginia (validateLeadLocation z None))
   \<and> (\<forall>z. length z = 5 \<and> list_all isDigit z \<and> take 2 z \<notin> set VA_ZIP_PREFIXES \<longrightarrow>
         \<not> isVirginia (validateLeadLocation z None) \<and> county (validateLeadLocation z None) = None)"
proof (intro conjI allI impI)
  show "\<forall>(z, c) \<in> set ZIP_TO_COUNTY.
       county (validateLeadLocation z None) = Some c \<and> isVirginia (validateLeadLocation z None)"
  proof (clarify)
    fix z c assume m: "(z, c) \<in> set ZIP_TO_COUNTY"
    from m ZIP_TO_COUNTY_keys
    have k: "length z = 5" "list_all isDigit z" "take 2 z \<in> set VA_ZIP_PREFIXES"
      unfolding list_all_iff [of _ ZIP_TO_COUNTY] by blast+
    from m ZIP_TO_COUNTY_distinct have l: "map_of ZIP_TO_COUNTY z = Some c"
      by (simp add: map_of_is_SomeI)
    show "county (validateLeadLocation z None) = Some c \<and> isVirginia (validateLeadLocation z None)"
      by (simp add: validate_wellformed_zip [OF k(1,2)] k(3) l)
  qed
next
  fix z assume "length z = 5 \<and> list_all isDigit z \<and> take 2 z \<notin> set VA_ZIP_PREFIXES"
  then show "\<not> isVirginia (validateLeadLocation z None)"
    and "county (validateLeadLocation z None) = None"
    by (simp_all add: validate_wellformed_zip)
qed

theorem zip_round_trip_witness:
  "(''22030'', ''Fairfax'') \<in> set ZIP_TO_COUNTY
   \<and> county (validateLeadLocation ''22030'' None) = Some ''Fairfax''
   \<and> isVirginia (validateLeadLocation ''22030'' None)
   \<and> length ''90210'' = 5 \<and> list_all isDigit ''90210'' \<and> take 2 ''90210'' \<notin> set VA_ZIP_PREFIXES
   \<and> \<not> isVirginia (validateLeadLocation ''90210'' None)
   \<and> county (validateLeadLocation ''90210'' None) = None"
proof -
  have m: "(''22030'', ''Fairfax'') \<in> set ZIP_TO_COUNTY"
    by (simp add: ZIP_TO_COUNTY_def)
  have h: "length ''90210'' = 5 \<and> list_all isDigit ''90210''
      \<and> take 2 ''90210'' \<notin> set VA_ZIP_PREFIXES"
    by (simp add: isDigit_def VA_ZIP_PREFIXES_def)
  from zip_round_trip have
    a: "\<forall>(z, c) \<in> set ZIP_TO_COUNTY.
       county (validateLeadLocation z None) = Some c \<and> isVirginia (validateLeadLocation z None)"
    and b: "\<forall>z. length z = 5 \<and> list_all isDigit z \<and> take 2 z \<notin> set VA_ZIP_PREFIXES \<longrightarrow>
         \<not> isVirginia (validateLeadLocation z None) \<and> county (validateLeadLocation z None) = None"
    by blast+
  from a m have 1: "county (validateLeadLocation ''22030'' None) = Some ''Fairfax''
      \<and> isVirginia (validateLeadLocation ''22030'' None)" by blast
  from b h have 2: "\<not> isVirginia (validateLeadLocation ''90210'' None)
      \<and> county (validateLeadLocation ''90210'' None) = None" by blast
  from m h 1 2 show ?thesis by blast
qed

text \<open>
  C10: each geofence entry point depends on its ZIP argument only through the first five
  of its digits, all other characters being dropped; so a five-digit ZIP code followed
  by any extension, as in \<^verbatim>\<open>22030-1234\<close>, gives the results of the five-digit ZIP code
  in \<^verbatim>\<open>validateLeadLocation\<close>, \<^verbatim>\<open>isVirginiaZipCode\<close> and \<^verbatim>\<open>getCountyFromZip\<close>.
\<close>

theorem zip_extension_ignored:
  "validateLeadLocation zipCode st = validateLeadLocation (take 5 (filter isDigit zipCode)) st
   \<and> isVirginiaZipCode zipCode = isVirginiaZipCode (take 5 (filter isDigit zipCode))
   \<and> getCountyFromZip zipCode = getCountyFromZip (take 5 (filter isDigit zipCode))
   \<and> (length z = 5 \<and> list_all isDigit z \<longrightarrow>
        validateLeadLocation (z @ s) st = validateLeadLocation z st
        \<and> isVirginiaZipCode (z @ s) = isVirginiaZipCode z
        \<and> getCountyFromZip (z @ s) = getCountyFromZip z)"
proof -
  have c: "take 5 (filter isDigit zipCode) = cleanZipOf zipCode"
    by (simp add: cleanZipOf_def stripNonDigits_def)
  have 1: "validateLeadLocation zipCode st = validateLeadLocation (cleanZipOf zipCode) st"
    by (simp add: validateLeadLocation_def cleanZipOf_idem)
  have 2: "isVirginiaZipCode zipCode = isVirginiaZipCode (cleanZipOf zipCode)"
    by (simp add: isVirginiaZipCode_def cleanZipOf_idem)
  have 3: "getCountyFromZip zipCode = getCountyFromZip (cleanZipOf zipCode)"
    by (simp add: getCountyFromZip_def cleanZipOf_idem)
  have 4: "validateLeadLocation (z @ s) st = validateLeadLocation z st
        \<and> isVirginiaZipCode (z @ s) = isVirginiaZipCode z
        \<and> getCountyFromZip (z @ s) = getCountyFromZip z"
    if "length z = 5" and "list_all isDigit z"
  proof -
    have e: "cleanZipOf (z @ s) = cleanZipOf z"
      using cleanZipOf_digits [OF that, of s] cleanZipOf_self [OF that] by simp
    show ?thesis
      by (simp add: validateLeadLocation_def isVirginiaZipCode_def getCountyFromZip_def e)
  qed
  from 1 2 3 4 show ?thesis unfolding c by blast
qed

theorem zip_extension_ignored_witness:
  "length ''22030'' = 5 \<and> list_all isDigit ''22030''
   \<and> validateLeadLocation ''22030-1234'' None = validateLeadLocation ''22030'' None
   \<and> isVirginiaZipCode ''22030-1234'' = isVirginiaZipCode ''22030''
   \<and> getCountyFromZip ''22030-1234'' = getCountyFromZip ''22030''"
proof -
  have h: "length ''22030'' = 5 \<and> list_all isDigit ''22030''"
    by (simp add: isDigit_def)
  from zip_extension_ignored [of _ None "''22030''" "''-1234''"] h
  show ?thesis by simp
qed

section \<open>Properties of duplicate detection\<close>

text \<open>
  The result of the batch at an index is the loop body on that lead and the rows of the
  store: no lead of the batch is compared with another lead of the batch.
\<close>

lemma batchCheckDuplicates_index:
  "batchCheckDuplicates store leads i =
     (if i < length leads then Some (batchCheckOne store (leads ! i)) else None)"
proof (cases "i < length leads")
  case True
  have "map_of (zip [0 ..< length leads] (map (batchCheckOne store) leads)) ([0 ..< length leads] ! i)
        = Some (map (batchCheckOne store) leads ! i)"
    using True by (intro map_of_zip_nth) simp_all
  with True show ?thesis by (simp add: batchCheckDuplicates_def)
next
  case False
  then have "i \<notin> set [0 ..< length leads]" by simp
  then have "map_of (zip [0 ..< length leads] (map (batchCheckOne store) leads)) i = None"
    by (simp add: map_of_zip_is_None)
  with False show ?thesis by (simp add: batchCheckDuplicates_def)
qed

text \<open>
  C1 says that \<^verbatim>\<open>batchCheckDuplicates\<close> gives at each index the result of
  \<^verbatim>\<open>findDuplicateLead\<close> on that lead and the same rows. The code does not: for a lead
  whose phone number has fewer than ten digits, here the seven digits of \<^verbatim>\<open>555-0101\<close>,
  \<^verbatim>\<open>findDuplicateLead\<close> skips the phone comparison and reports no duplicate, while the
  loop of \<^verbatim>\<open>batchCheckDuplicates\<close> compares the phone numbers without the length test
  and reports a phone duplicate of the stored row.
\<close>

theorem batch_single_divergence:
  "findDuplicateLead
     [\<lparr>row_id = ''lead-1'', row_name = ''John Smith'', row_email = None,
       row_phone = Some ''555 0101'', row_location = ''Reston''\<rparr>]
     \<lparr>name = ''Mary Jones'', email = None, phone = Some ''555-0101'',
      location_in = ''Vienna'', address = None\<rparr>
   = \<lparr>isDuplicate = False, matchedLeadId = None, matchType = None\<rparr>
   \<and> batchCheckDuplicates
     [\<lparr>row_id = ''lead-1'', row_name = ''John Smith'', row_email = None,
       row_phone = Some ''555 0101'', row_location = ''Reston''\<rparr>]
     [\<lparr>name = ''Mary Jones'', email = None, phone = Some ''555-0101'',
       location_in = ''Vienna'', address = None\<rparr>] 0
   = Some \<lparr>isDuplicate = True, matchedLeadId = Some ''lead-1'', matchType = Some Phone\<rparr>"
  by code_simp

text \<open>
  The two functions also order their tests differently: \<^verbatim>\<open>findDuplicateLead\<close> tries the
  email on all rows before the name and location, the batch loop takes the first row
  that passes any test.
\<close>

lemma batch_row_order_divergence:
  "findDuplicateLead
     [\<lparr>row_id = ''lead-1'', row_name = ''John Smith'', row_email = Some ''js@old.com'',
       row_phone = None, row_location = ''Reston''\<rparr>,
      \<lparr>row_id = ''lead-2'', row_name = ''J. Smith'', row_email = Some ''john@x.com'',
       row_phone = None, row_location = ''Vienna''\<rparr>]
     \<lparr>name = ''John Smith'', email = Some ''john@x.com'', phone = None,
      location_in = ''Reston'', address = None\<rparr>
   = \<lparr>isDuplicate = True, matchedLeadId = Some ''lead-2'', matchType = Some Email\<rparr>"
  "batchCheckDuplicates
     [\<lparr>row_id = ''lead-1'', row_name = ''John Smith'', row_email = Some ''js@old.com'',
       row_phone = None, row_location = ''Reston''\<rparr>,
      \<lparr>row_id = ''lead-2'', row_name = ''J. Smith'', row_email = Some ''john@x.com'',
       row_phone = None, row_location = ''Vienna''\<rparr>]
     [\<lparr>name = ''John Smith'', email = Some ''john@x.com'', phone = None,
       location_in = ''Reston'', address = None\<rparr>] 0
   = Some \<lparr>isDuplicate = True, matchedLeadId = Some ''lead-1'', matchType = Some NameLocation\<rparr>"
  by code_simp+

section \<open>Properties of the service classifier\<close>

text \<open>
  C7: \<^verbatim>\<open>findClosestService("kitchen remodeling")\<close> is \<^verbatim>\<open>Kitchen Remodel\<close>. No service
  name equals the input; the partial match succeeds at \<^verbatim>\<open>Kitchen Remodel\<close>, the first
  name in table order that contains the input or is contained in it. The tier of
  \<^verbatim>\<open>Kitchen Remodel\<close> is MODERNIZE, which is tier 2.
\<close>

theorem kitchen_remodeling:
  "findClosestService ''kitchen remodeling'' = Some ''Kitchen Remodel''
   \<and> directMatch ''kitchen remodeling'' = None
   \<and> partialMatch ''kitchen remodeling'' = Some ''Kitchen Remodel''
   \<and> getServiceTier ''Kitchen Remodel'' = MODERNIZE
   \<and> tierNumber MODERNIZE = 2"
  by code_simp

section \<open>Properties of tagging\<close>

text \<open>
  C8: the list \<^verbatim>\<open>assignLeadTags\<close> returns has no tag twice, so it has at most five tags;
  in particular \<^verbatim>\<open>Whale\<close> occurs at most once, whether the service rule, the value rule
  or both fire.
\<close>

theorem tags_distinct:
  "distinct (assignLeadTags input)
   \<and> length (assignLeadTags input) \<le> 5
   \<and> count_list (assignLeadTags input) Whale \<le> 1"
  by (simp add: assignLeadTags_def Let_def)

section \<open>Properties of the score\<close>

lemma baseScore_ge: "20 \<le> baseScore (TIER_CONFIG t)"
  by (cases t) simp_all

lemma tier_bounds: "0 < minValue (TIER_CONFIG t) \<and> minValue (TIER_CONFIG t) < maxValue (TIER_CONFIG t)"
  by (cases t) simp_all

lemma scopeScoreOf_ge: "20 \<le> scopeScoreOf ps"
proof (cases ps)
  case None
  then show ?thesis by (simp add: scopeScoreOf_def)
next
  case (Some p)
  then show ?thesis by (cases p) (simp_all add: scopeScoreOf_def)
qed

lemma interpolation_bounds:
  fixes v lo hi :: real
  assumes "lo < v" and "v < hi"
  shows "0 \<le> 70 * (v - lo) / (hi - lo)" and "70 * (v - lo) / (hi - lo) \<le> 70"
proof -
  from assms have d: "0 < hi - lo" by simp
  from assms show "0 \<le> 70 * (v - lo) / (hi - lo)" by simp
  have "70 * (v - lo) \<le> 70 * (hi - lo)" using assms by simp
  then show "70 * (v - lo) / (hi - lo) \<le> 70"
    using d by (simp add: pos_divide_le_eq)
qed

lemma valueScoreOf_bounds: "30 \<le> valueScoreOf cfg ev \<and> valueScoreOf cfg ev \<le> 100"
proof (cases "truthyNum ev \<and> the ev > 0")
  case False
  then have "valueScoreOf cfg ev = 50"
    unfolding valueScoreOf_def by (rule if_not_P)
  then show ?thesis by simp
next
  case present: True
  show ?thesis
  proof (cases "the ev \<ge> maxValue cfg \<or> the ev \<le> minValue cfg")
    case True
    with present show ?thesis by (auto simp: valueScoreOf_def)
  next
    case False
    then have r: "minValue cfg < the ev" "the ev < maxValue cfg" by auto
    have "valueScoreOf cfg ev
        = 30 + 70 * (the ev - minValue cfg) / (maxValue cfg - minValue cfg)"
      using present r by (simp add: valueScoreOf_def)
    with interpolation_bounds [OF r] show ?thesis by simp
  qed
qed

lemma locationScoreOf_ge: "70 \<le> locationScoreOf cty"
  by (simp add: locationScoreOf_def Let_def)

lemma engagementScoreOf_ge: "0 \<le> engagementScoreOf e p"
  by (simp add: engagementScoreOf_def)

lemma calculateTagBonus_ge: "0 \<le> calculateTagBonus ts"
  by (simp add: calculateTagBonus_def Let_def)

lemma weightedScoreOf_ge: "26 \<le> weightedScoreOf i"
proof -
  let ?cfg = "TIER_CONFIG (serviceTier i)"
  let ?w = "baseScore ?cfg * (40 / 100) + scopeScoreOf (projectScope i) * (25 / 100)
            + valueScoreOf ?cfg (estimatedValue i) * (20 / 100)
            + locationScoreOf (county_score i) * (10 / 100)
            + engagementScoreOf (hasEmail i) (hasPhone i) * (5 / 100)"
  have w: "26 \<le> ?w"
    using baseScore_ge [of "serviceTier i"] scopeScoreOf_ge [of "projectScope i"]
      valueScoreOf_bounds [of ?cfg "estimatedValue i"] locationScoreOf_ge [of "county_score i"]
      engagementScoreOf_ge [of "hasEmail i" "hasPhone i"]
    by simp
  have t: "0 \<le> (if length (tags i) > 0 then calculateTagBonus (tags i) else 0)"
    using calculateTagBonus_ge [of "tags i"] by simp
  have c: "0 \<le> (if truthyNum (confidenceScore i) \<and> the (confidenceScore i) > 0
                  then (the (confidenceScore i) / 100) * 5 else 0)"
    by simp
  have "weightedScoreOf i = ?w + (if length (tags i) > 0 then calculateTagBonus (tags i) else 0)
      + (if truthyNum (confidenceScore i) \<and> the (confidenceScore i) > 0
                  then (the (confidenceScore i) / 100) * 5 else 0)"
    by (simp add: weightedScoreOf_def Let_def)
  with w t c show ?thesis by linarith
qed

lemma mathRound_mono: "x \<le> y \<Longrightarrow> mathRound x \<le> mathRound y"
  by (simp add: mathRound_def floor_mono)

lemma mathRound_of_int: "mathRound (of_int n) = n"
  by (simp add: mathRound_def)

text \<open>
  C2: for every input, \<^verbatim>\<open>calculateLeadScore\<close> returns an integer from 0 to 100.
\<close>

theorem score_bounds: "0 \<le> calculateLeadScore i \<and> calculateLeadScore i \<le> 100"
  by (simp add: calculateLeadScore_def)

text \<open>
  C9: for every input the score is at least 26, the weighted sum of the least tier score
  20, the least scope score 20, the least value score 30, the least location score 70
  and the engagement score 0; the value score is never below 30 and the location score
  never below 70, and the lower clamp at 0 leaves the rounded score as it is.
\<close>

theorem score_floor:
  "26 \<le> calculateLeadScore i
   \<and> 30 \<le> valueScoreOf (TIER_CONFIG (serviceTier i)) (estimatedValue i)
   \<and> 70 \<le> locationScoreOf (county_score i)
   \<and> max 0 (mathRound (weightedScoreOf i)) = mathRound (weightedScoreOf i)"
proof -
  have "mathRound 26 \<le> mathRound (weightedScoreOf i)"
    by (rule mathRound_mono) (rule weightedScoreOf_ge)
  moreover have "mathRound 26 = 26" using mathRound_of_int [of 26] by simp
  ultimately have r: "26 \<le> mathRound (weightedScoreOf i)" by simp
  then have "26 \<le> calculateLeadScore i" by (simp add: calculateLeadScore_def)
  with r valueScoreOf_bounds locationScoreOf_ge show ?thesis by simp
qed

text \<open>The floor is reached: a small SERVICE-tier job of low value with no contact data.\<close>

lemma score_floor_attained:
  "calculateLeadScore \<lparr>serviceTier = SERVICE, projectScope = Some small,
      estimatedValue = Some 1000, county_score = None, hasEmail = False, hasPhone = False,
      tags = [], confidenceScore = None\<rparr> = 26"
  by (simp add: calculateLeadScore_def weightedScoreOf_def scopeScoreOf_def valueScoreOf_def
      locationScoreOf_def engagementScoreOf_def truthyNum_def truthyStr_def mathRound_def
      Let_def)

lemma valueScoreOf_mono:
  assumes "minValue (TIER_CONFIG t) \<le> v1" and "v1 \<le> v2" and "v2 \<le> maxValue (TIER_CONFIG t)"
  shows "valueScoreOf (TIER_CONFIG t) (Some v1) \<le> valueScoreOf (TIER_CONFIG t) (Some v2)"
proof -
  let ?lo = "minValue (TIER_CONFIG t)" and ?hi = "maxValue (TIER_CONFIG t)"
  from tier_bounds [of t] have b: "0 < ?lo" "?lo < ?hi" by simp_all
  from assms b have p: "0 < v1" "0 < v2" by simp_all
  consider "v2 \<ge> ?hi" | "v1 \<le> ?lo" | "v2 < ?hi" "?lo < v1" by linarith
  then show ?thesis
  proof cases
    case 1
    with p have "valueScoreOf (TIER_CONFIG t) (Some v2) = 100"
      by (simp add: valueScoreOf_def truthyNum_def)
    with valueScoreOf_bounds [of "TIER_CONFIG t" "Some v1"] show ?thesis by simp
  next
    case 2
    with p b assms have "valueScoreOf (TIER_CONFIG t) (Some v1) = 30"
      by (simp add: valueScoreOf_def truthyNum_def)
    with valueScoreOf_bounds [of "TIER_CONFIG t" "Some v2"] show ?thesis by simp
  next
    case 3
    with assms have r: "v1 < ?hi" "?lo < v2" by simp_all
    have "70 * (v1 - ?lo) / (?hi - ?lo) \<le> 70 * (v2 - ?lo) / (?hi - ?lo)"
      using assms(2) b by (simp add: divide_right_mono)
    with 3 r p show ?thesis by (simp add: valueScoreOf_def truthyNum_def)
  qed
qed

text \<open>
  C6: with every other field fixed, for two estimated values \<open>v1 \<le> v2\<close> within the
  range from \<^verbatim>\<open>minValue\<close> to \<^verbatim>\<open>maxValue\<close> of the input's tier, the value score of
  \<open>v1\<close> is at most that of \<open>v2\<close>, and so is the lead score.
\<close>

theorem score_monotone_in_value:
  assumes "minValue (TIER_CONFIG (serviceTier i)) \<le> v1" and "v1 \<le> v2"
    and "v2 \<le> maxValue (TIER_CONFIG (serviceTier i))"
  shows "valueScoreOf (TIER_CONFIG (serviceTier i)) (Some v1)
           \<le> valueScoreOf (TIER_CONFIG (serviceTier i)) (Some v2)
       \<and> calculateLeadScore (i\<lparr>estimatedValue := Some v1\<rparr>)
           \<le> calculateLeadScore (i\<lparr>estimatedValue := Some v2\<rparr>)"
proof -
  from valueScoreOf_mono [OF assms]
  have m: "valueScoreOf (TIER_CONFIG (serviceTier i)) (Some v1)
           \<le> valueScoreOf (TIER_CONFIG (serviceTier i)) (Some v2)" .
  then have "weightedScoreOf (i\<lparr>estimatedValue := Some v1\<rparr>)
           \<le> weightedScoreOf (i\<lparr>estimatedValue := Some v2\<rparr>)"
    by (simp add: weightedScoreOf_def Let_def)
  then have "mathRound (weightedScoreOf (i\<lparr>estimatedValue := Some v1\<rparr>))
           \<le> mathRound (weightedScoreOf (i\<lparr>estimatedValue := Some v2\<rparr>))"
    by (rule mathRound_mono)
  then have "calculateLeadScore (i\<lparr>estimatedValue := Some v1\<rparr>)
           \<le> calculateLeadScore (i\<lparr>estimatedValue := Some v2\<rparr>)"
    by (simp add: calculateLeadScore_def)
  with m show ?thesis by simp
qed

theorem score_monotone_in_value_witness:
  "minValue (TIER_CONFIG EPIC) \<le> 150000 \<and> (150000::real) \<le> 300000
   \<and> 300000 \<le> maxValue (TIER_CONFIG EPIC)
   \<and> valueScoreOf (TIER_CONFIG EPIC) (Some 150000) \<le> valueScoreOf (TIER_CONFIG EPIC) (Some 300000)
   \<and> calculateLeadScore \<lparr>serviceTier = EPIC, projectScope = Some large,
          estimatedValue = Some 150000, county_score = Some ''Fairfax'', hasEmail = True,
          hasPhone = False, tags = [Whale], confidenceScore = None\<rparr>
       \<le> calculateLeadScore \<lparr>serviceTier = EPIC, projectScope = Some large,
          estimatedValue = Some 300000, county_score = Some ''Fairfax'', hasEmail = True,
          hasPhone = False, tags = [Whale], confidenceScore = None\<rparr>"
  using score_monotone_in_value [of "\<lparr>serviceTier = EPIC, projectScope = Some large,
          estimatedValue = None, county_score = Some ''Fairfax'', hasEmail = True,
          hasPhone = False, tags = [Whale], confidenceScore = None\<rparr>" 150000 300000]
  by simp

lemma new_construction_tags:
  "assignLeadTags \<lparr>serviceType = ''New Construction'', location = loc, county_tag = None,
      leadType = None, estimatedValue_tag = Some 450000\<rparr>
   = (if isLuxuryArea loc then [Whale, Luxury] else [Whale])"
  by (simp add: assignLeadTags_def WHALE_SERVICES_def QUICK_TURN_SERVICES_def truthyNum_def
      isLuxuryCounty_def truthyStr_def Let_def)

lemma new_construction_score:
  "calculateLeadScore \<lparr>serviceTier = EPIC, projectScope = None, estimatedValue = Some 450000,
      county_score = None, hasEmail = True, hasPhone = True, tags = [Whale],
      confidenceScore = None\<rparr> = 90"
  "calculateLeadScore \<lparr>serviceTier = EPIC, projectScope = None, estimatedValue = Some 450000,
      county_score = None, hasEmail = True, hasPhone = True, tags = [Whale, Luxury],
      confidenceScore = None\<rparr> = 100"
  by (simp_all add: calculateLeadScore_def weightedScoreOf_def scopeScoreOf_def valueScoreOf_def
      locationScoreOf_def engagementScoreOf_def calculateTagBonus_def truthyNum_def truthyStr_def
      mathRound_def Let_def)

lemma tier_nc: "getServiceTier ''New Construction'' = EPIC"
  by (simp add: getServiceTier_def SERVICE_TO_TIER_def)

text \<open>
  C4: for service type \<^verbatim>\<open>New Construction\<close>, estimated value 450000, an email and a
  phone, and no scope, county, lead type or confidence score, whatever the location:
  the tier of the service is EPIC, the assigned tags contain \<^verbatim>\<open>Whale\<close>, and the score
  computed with that tier and those tags is at least 90.
\<close>

theorem new_construction_scenario:
  "getServiceTier ''New Construction'' = EPIC
   \<and> Whale \<in> set (assignLeadTags \<lparr>serviceType = ''New Construction'', location = loc,
        county_tag = None, leadType = None, estimatedValue_tag = Some 450000\<rparr>)
   \<and> 90 \<le> calculateLeadScore \<lparr>serviceTier = getServiceTier ''New Construction'',
        projectScope = None, estimatedValue = Some 450000, county_score = None,
        hasEmail = True, hasPhone = True,
        tags = assignLeadTags \<lparr>serviceType = ''New Construction'', location = loc,
          county_tag = None, leadType = None, estimatedValue_tag = Some 450000\<rparr>,
        confidenceScore = None\<rparr>"
  by (simp add: tier_nc new_construction_tags new_construction_score)

end
